theory Spec2Isabelle
  imports Complex_Main
begin

section \<open>Training-loop helper: progress tracker and epoch driver (train/utils.py)\<close>

text \<open>
  The module consists of the class \<open>TrainingProgress\<close> and the procedure
  \<open>train_epoch\<close>. The embedding keeps Python's object model as far as the
  program depends on it:

  \<^item> the four accumulators are declared in the class body, so they are attributes of
    the class; an instance gets an entry of its own only when a method assigns
    \<open>self.average_... = ...\<close>. Reading \<open>self.x\<close> looks in the instance first and
    falls back to the class;
  \<^item> \<open>epoch\<close>, \<open>track_accuracy\<close> and \<open>best_validation_loss\<close> are assigned by
    \<open>__init__\<close> and therefore always live in the instance;
  \<^item> an exception is a value: a call returns either the world it produced or the
    exception together with the world as mutated up to the raise;
  \<^item> calls that leave the module (\<open>model.train()\<close>, \<open>model.eval()\<close>, the
    processor, \<open>torch.save\<close>, \<open>print\<close>) are appended to a trace.

  Numbers are idealised: Python's \<open>int\<close> \<open>0\<close> and its floats are both read as
  reals, \<open>/=\<close> is true division, and rounding error, infinities and NaN are outside
  the model.
\<close>

subsection \<open>Objects, class attributes and the world\<close>

type_synonym addr = nat

datatype attr =
    average_training_loss
  | average_validation_loss
  | average_training_acc
  | average_validation_acc

record tracker_obj =
  epoch :: int
  track_accuracy :: bool
  best_validation_loss :: real
  own :: "attr \<rightharpoonup> real"

datatype error =
    AssertionError string
  | TypeError
  | ZeroDivisionError
  | ValueError
  | AttributeError
  | ProcessorError string

datatype ('b, 'm) event =
    ModelTrain
  | ModelEval
  | ProcessorCall 'b "bool option"
  | TorchSave 'm string
  | PrintTraining int real real
  | PrintValidation real real

record ('b, 'm, 's) world =
  class_attrs :: "attr \<Rightarrow> real"
  objs :: "addr \<Rightarrow> tracker_obj"
  trace :: "('b, 'm) event list"
  ext :: 's

type_synonym ('b, 'm, 's) result =
  "(error \<times> ('b, 'm, 's) world) + ('b, 'm, 's) world"

text \<open>
  The class body: \<open>average_training_loss, average_validation_loss = 0, 0\<close> and
  \<open>average_training_acc, average_validation_acc = 0, 0\<close>.
\<close>

definition TrainingProgress_class :: "attr \<Rightarrow> real" where
  "TrainingProgress_class = (\<lambda>_. 0)"

text \<open>Attribute lookup \<open>self.x\<close>: the instance's own entry, else the class attribute.\<close>

definition getattr :: "('b, 'm, 's) world \<Rightarrow> addr \<Rightarrow> attr \<Rightarrow> real" where
  "getattr w self x =
     (case own (objs w self) x of Some v \<Rightarrow> v | None \<Rightarrow> class_attrs w x)"

text \<open>Attribute assignment \<open>self.x = v\<close>: always an entry of the instance.\<close>

definition setattr :: "('b, 'm, 's) world \<Rightarrow> addr \<Rightarrow> attr \<Rightarrow> real \<Rightarrow> ('b, 'm, 's) world" where
  "setattr w self x v =
     w\<lparr>objs := (objs w)(self := (objs w self)\<lparr>own := (own (objs w self))(x \<mapsto> v)\<rparr>)\<rparr>"

definition set_epoch :: "('b, 'm, 's) world \<Rightarrow> addr \<Rightarrow> int \<Rightarrow> ('b, 'm, 's) world" where
  "set_epoch w self e = w\<lparr>objs := (objs w)(self := (objs w self)\<lparr>epoch := e\<rparr>)\<rparr>"

definition set_best :: "('b, 'm, 's) world \<Rightarrow> addr \<Rightarrow> real \<Rightarrow> ('b, 'm, 's) world" where
  "set_best w self v =
     w\<lparr>objs := (objs w)(self := (objs w self)\<lparr>best_validation_loss := v\<rparr>)\<rparr>"

definition emit :: "('b, 'm) event \<Rightarrow> ('b, 'm, 's) world \<Rightarrow> ('b, 'm, 's) world" where
  "emit ev w = w\<lparr>trace := trace w @ [ev]\<rparr>"

text \<open>The world a result carries, whether the call returned or raised.\<close>

definition world_of :: "('b, 'm, 's) result \<Rightarrow> ('b, 'm, 's) world" where
  "world_of r = (case r of Inl (e, w) \<Rightarrow> w | Inr w \<Rightarrow> w)"

subsection \<open>Python primitives used by the module\<close>

text \<open>\<open>x / n\<close> with a zero divisor raises \<open>ZeroDivisionError\<close>.\<close>

definition truediv :: "real \<Rightarrow> int \<Rightarrow> real option" where
  "truediv x n = (if n = 0 then None else Some (x / real_of_int n))"

text \<open>\<open>int(x)\<close> on a float drops the fractional part (truncation toward zero).\<close>

definition py_int :: "real \<Rightarrow> int" where
  "py_int x = (if 0 \<le> x then \<lfloor>x\<rfloor> else \<lceil>x\<rceil>)"

text \<open>The conversion \<open>%d\<close> of an integer: decimal digits, with a minus sign if negative.\<close>

fun digits :: "nat \<Rightarrow> string" where
  "digits n =
     (if n < 10 then [''0123456789'' ! n]
      else digits (n div 10) @ [''0123456789'' ! (n mod 10)])"

declare digits.simps [simp del]

definition fmt_d :: "int \<Rightarrow> string" where
  "fmt_d i = (if i < 0 then CHR ''-'' # digits (nat (- i)) else digits (nat i))"

subsection \<open>class TrainingProgress\<close>

text \<open>
  Instantiation at address \<open>self\<close>: a fresh object with no entries of its own, on
  which \<open>__init__(epoch=0, track_accuracy=True, best_validation_loss=1e6)\<close> assigns
  its three parameters. The address is given by the caller (allocation is not
  modelled), and the arguments are explicit: the defaults are \<open>0\<close>, \<open>True\<close> and
  \<open>1000000\<close>.
\<close>

definition TrainingProgress_init ::
  "('b, 'm, 's) world \<Rightarrow> addr \<Rightarrow> int \<Rightarrow> bool \<Rightarrow> real \<Rightarrow> ('b, 'm, 's) world" where
  "TrainingProgress_init w self epoch0 track best =
     w\<lparr>objs := (objs w)(self :=
         \<lparr>epoch = epoch0, track_accuracy = track, best_validation_loss = best,
          own = Map.empty\<rparr>)\<rparr>"

text \<open>
  \<open>update_progress(self, train, epoch, loss, acc=None)\<close>. Adding \<open>None\<close> to a number
  raises \<open>TypeError\<close>; by then the epoch and the loss accumulator are already
  assigned.
\<close>

definition update_progress ::
  "('b, 'm, 's) world \<Rightarrow> addr \<Rightarrow> bool \<Rightarrow> int \<Rightarrow> real \<Rightarrow> real option \<Rightarrow> ('b, 'm, 's) result" where
  "update_progress w self train epoch1 loss acc =
     (let w1 = set_epoch w self epoch1 in
      if train then
        (let w2 = setattr w1 self average_training_loss
                    (getattr w1 self average_training_loss + loss) in
         if track_accuracy (objs w2 self) then
           (case acc of
              None \<Rightarrow> Inl (TypeError, w2)
            | Some a \<Rightarrow> Inr (setattr w2 self average_training_acc
                              (getattr w2 self average_training_acc + a)))
         else Inr w2)
      else
        (let w2 = setattr w1 self average_validation_loss
                    (getattr w1 self average_validation_loss + loss) in
         if track_accuracy (objs w2 self) then
           (case acc of
              None \<Rightarrow> Inl (TypeError, w2)
            | Some a \<Rightarrow> Inr (setattr w2 self average_validation_acc
                              (getattr w2 self average_validation_acc + a)))
         else Inr w2))"

text \<open>\<open>start_epoch(self, train)\<close>.\<close>

definition start_epoch :: "('b, 'm, 's) world \<Rightarrow> addr \<Rightarrow> bool \<Rightarrow> ('b, 'm, 's) world" where
  "start_epoch w self train =
     (if train then
        setattr (setattr w self average_training_acc 0) self average_training_loss 0
      else
        setattr (setattr w self average_validation_loss 0) self average_validation_acc 0)"

text \<open>
  The file name \<open>"epoch-%d-%d.pt" % (self.epoch, int(self.average_validation_acc))\<close>.
\<close>

definition checkpoint_name :: "int \<Rightarrow> real \<Rightarrow> string" where
  "checkpoint_name e a = ''epoch-'' @ fmt_d e @ ''-'' @ fmt_d (py_int a) @ ''.pt''"

text \<open>
  \<open>finish_epoch(self, train, epoch, model, num_batches)\<close>. Each \<open>/=\<close> is a step that
  can raise; \<open>torch.save(model.state_dict(), name)\<close> is recorded in the trace.
\<close>

definition finish_epoch ::
  "('b, 'm, 's) world \<Rightarrow> addr \<Rightarrow> bool \<Rightarrow> int \<Rightarrow> 'm \<Rightarrow> int \<Rightarrow> ('b, 'm, 's) result" where
  "finish_epoch w self train epoch1 model num_batches =
     (let w1 = set_epoch w self epoch1 in
      if train then
        (case truediv (getattr w1 self average_training_acc) num_batches of
           None \<Rightarrow> Inl (ZeroDivisionError, w1)
         | Some q1 \<Rightarrow>
            (let w2 = setattr w1 self average_training_acc q1 in
             case truediv (getattr w2 self average_training_loss) num_batches of
               None \<Rightarrow> Inl (ZeroDivisionError, w2)
             | Some q2 \<Rightarrow> Inr (setattr w2 self average_training_loss q2)))
      else
        (case truediv (getattr w1 self average_validation_acc) num_batches of
           None \<Rightarrow> Inl (ZeroDivisionError, w1)
         | Some q1 \<Rightarrow>
            (let w2 = setattr w1 self average_validation_acc q1 in
             case truediv (getattr w2 self average_validation_loss) num_batches of
               None \<Rightarrow> Inl (ZeroDivisionError, w2)
             | Some q2 \<Rightarrow>
                (let w3 = setattr w2 self average_validation_loss q2 in
                 if best_validation_loss (objs w3 self)
                      > getattr w3 self average_validation_loss then
                   (let w4 = set_best w3 self (getattr w3 self average_validation_loss) in
                    Inr (emit (TorchSave model
                           (checkpoint_name (epoch (objs w4 self))
                              (getattr w4 self average_validation_acc))) w4))
                 else Inr w3))))"

subsection \<open>train_epoch\<close>

text \<open>
  What a processor returns, as far as the driver looks at it: one tensor, or a pair
  of tensors. A tensor is represented by the scalar that \<open>.data[0]\<close> extracts.
\<close>

datatype pret = Tensor real | TensorPair real real

type_synonym ('b, 's) processor = "'b \<Rightarrow> bool option \<Rightarrow> 's \<Rightarrow> (error + pret) \<times> 's"

text \<open>
  A call of the processor: \<open>processor(batch, train=flag)\<close> is \<open>Some flag\<close>,
  \<open>processor(batch)\<close> passes no flag and is \<open>None\<close>. The processor acts on the
  external state (the model's parameters and anything else it owns).
\<close>

definition call_processor ::
  "('b, 's) processor \<Rightarrow> 'b \<Rightarrow> bool option \<Rightarrow> ('b, 'm, 's) world
     \<Rightarrow> (error + pret) \<times> ('b, 'm, 's) world" where
  "call_processor processor batch flag w =
     (case processor batch flag (ext w) of
        (r, s') \<Rightarrow> (r, (emit (ProcessorCall batch flag) w)\<lparr>ext := s'\<rparr>))"

text \<open>
  The body of \<open>for batch in tqdm(iterator)\<close>. The two loops of the source differ only
  in the flag \<open>train\<close>; \<open>tqdm\<close> only displays progress. In the tracking branch the
  result is unpacked into two names, in the other branch \<open>.data\<close> is read from the
  result itself.
\<close>

fun process_batches ::
  "('b, 's) processor \<Rightarrow> addr \<Rightarrow> int \<Rightarrow> bool \<Rightarrow> 'b list \<Rightarrow> ('b, 'm, 's) world
     \<Rightarrow> ('b, 'm, 's) result" where
  "process_batches processor self epoch1 train [] w = Inr w"
| "process_batches processor self epoch1 train (batch # rest) w =
     (if track_accuracy (objs w self) then
        (case call_processor processor batch (Some train) w of
           (Inl e, w1) \<Rightarrow> Inl (e, w1)
         | (Inr (Tensor l), w1) \<Rightarrow> Inl (ValueError, w1)
         | (Inr (TensorPair l a), w1) \<Rightarrow>
             (case update_progress w1 self train epoch1 l (Some a) of
                Inl ew \<Rightarrow> Inl ew
              | Inr w2 \<Rightarrow> process_batches processor self epoch1 train rest w2))
      else
        (case call_processor processor batch None w of
           (Inl e, w1) \<Rightarrow> Inl (e, w1)
         | (Inr (TensorPair l a), w1) \<Rightarrow> Inl (AttributeError, w1)
         | (Inr (Tensor l), w1) \<Rightarrow>
             (case update_progress w1 self train epoch1 l None of
                Inl ew \<Rightarrow> Inl ew
              | Inr w2 \<Rightarrow> process_batches processor self epoch1 train rest w2)))"

text \<open>
  \<open>train_epoch(epoch, model, train_iterator, valid_iterator, processor, progress)\<close>.
  \<open>progress\<close> and \<open>valid_iterator\<close> may be \<open>None\<close>; an iterator is the list of its
  batches, and \<open>len\<close> is the length of that list.
\<close>

definition train_epoch ::
  "int \<Rightarrow> 'm \<Rightarrow> 'b list \<Rightarrow> 'b list option \<Rightarrow> ('b, 's) processor \<Rightarrow> addr option
     \<Rightarrow> ('b, 'm, 's) world \<Rightarrow> ('b, 'm, 's) result" where
  "train_epoch epoch1 model train_iterator valid_iterator processor progress w =
     (case progress of
        None \<Rightarrow>
          Inl (AssertionError ''Please provide your training progress to train_epoch.'', w)
      | Some self \<Rightarrow>
         (let w1 = start_epoch (emit ModelTrain w) self True in
          case process_batches processor self epoch1 True train_iterator w1 of
            Inl ew \<Rightarrow> Inl ew
          | Inr w2 \<Rightarrow>
             (case finish_epoch w2 self True epoch1 model (int (length train_iterator)) of
                Inl ew \<Rightarrow> Inl ew
              | Inr w3 \<Rightarrow>
                 (let w4 = emit (PrintTraining epoch1
                                   (getattr w3 self average_training_loss)
                                   (getattr w3 self average_training_acc)) w3 in
                  case valid_iterator of
                    None \<Rightarrow> Inr w4
                  | Some batches \<Rightarrow>
                     (let w5 = start_epoch (emit ModelEval w4) self False in
                      case process_batches processor self epoch1 False batches w5 of
                        Inl ew \<Rightarrow> Inl ew
                      | Inr w6 \<Rightarrow>
                         (case finish_epoch w6 self False epoch1 model
                                 (int (length batches)) of
                            Inl ew \<Rightarrow> Inl ew
                          | Inr w7 \<Rightarrow>
                              Inr (emit (PrintValidation
                                           (getattr w7 self average_validation_loss)
                                           (getattr w7 self average_validation_acc))
                                     w7)))))))"

subsection \<open>Sequences of tracker calls\<close>

text \<open>
  A client of the tracker calls its three methods in some order on one instance.
  The sequence ends at the first call that raises.
\<close>

datatype 'm call =
    StartPhase bool
  | RecordBatch bool int real "real option"
  | FinishPhase bool int 'm int

fun exec_call :: "('b, 'm, 's) world \<Rightarrow> addr \<Rightarrow> 'm call \<Rightarrow> ('b, 'm, 's) result" where
  "exec_call w self (StartPhase train) = Inr (start_epoch w self train)"
| "exec_call w self (RecordBatch train e loss acc) = update_progress w self train e loss acc"
| "exec_call w self (FinishPhase train e model n) = finish_epoch w self train e model n"

fun exec_calls :: "('b, 'm, 's) world \<Rightarrow> addr \<Rightarrow> 'm call list \<Rightarrow> ('b, 'm, 's) result" where
  "exec_calls w self [] = Inr w"
| "exec_calls w self (c # cs) =
     (case exec_call w self c of
        Inl ew \<Rightarrow> Inl ew
      | Inr w1 \<Rightarrow> exec_calls w1 self cs)"

text \<open>The accumulators of a phase.\<close>

definition loss_attr :: "bool \<Rightarrow> attr" where
  "loss_attr train = (if train then average_training_loss else average_validation_loss)"

definition acc_attr :: "bool \<Rightarrow> attr" where
  "acc_attr train = (if train then average_training_acc else average_validation_acc)"

text \<open>Whether a call returned, and the exception it raised if it did not.\<close>

definition returns :: "('b, 'm, 's) result \<Rightarrow> bool" where
  "returns r = (case r of Inl ew \<Rightarrow> False | Inr w \<Rightarrow> True)"

definition raised :: "('b, 'm, 's) result \<Rightarrow> error option" where
  "raised r = (case r of Inl (e, w) \<Rightarrow> Some e | Inr w \<Rightarrow> None)"

text \<open>
  The calls \<open>update_progress\<close> that one phase makes for its batches, each batch
  given by its loss and accuracy. As in the driver, the accuracy is passed exactly when
  the tracker tracks accuracy.
\<close>

definition record_calls :: "bool \<Rightarrow> bool \<Rightarrow> int \<Rightarrow> (real \<times> real) list \<Rightarrow> 'm call list" where
  "record_calls track train e bs =
     map (\<lambda>(l, a). RecordBatch train e l (if track then Some a else None)) bs"

subsection \<open>The checkpoint name as the specification words it\<close>

text \<open>
  The specification derives the identifier from the epoch and the mean validation
  accuracy rounded to the nearest integer. This definition follows those words; it is
  compared below with \<open>checkpoint_name\<close>, which follows the source.
\<close>

definition spec_checkpoint_name :: "int \<Rightarrow> real \<Rightarrow> string" where
  "spec_checkpoint_name e a = ''epoch-'' @ fmt_d e @ ''-'' @ fmt_d (round a) @ ''.pt''"

subsection \<open>Concrete worlds for the examples\<close>

text \<open>
  A world whose class attributes are those of the class body and whose trace is
  empty; batches are numbers, the model handle and the external state are trivial.
\<close>

definition world0 :: "(nat, unit, unit) world" where
  "world0 =
     \<lparr>class_attrs = TrainingProgress_class,
      objs = (\<lambda>_. \<lparr>epoch = 0, track_accuracy = True, best_validation_loss = 1000000,
                    own = Map.empty\<rparr>),
      trace = [],
      ext = ()\<rparr>"

text \<open>A processor that returns a loss of \<open>1\<close> for every batch.\<close>

definition unit_loss_processor :: "(nat, unit) processor" where
  "unit_loss_processor batch flag s = (Inr (Tensor 1), s)"

text \<open>A processor that returns a loss of \<open>1\<close> and an accuracy of \<open>90\<close>.\<close>

definition pair_processor :: "(nat, unit) processor" where
  "pair_processor batch flag s = (Inr (TensorPair 1 90), s)"

text \<open>
  A tracker at address \<open>0\<close>, constructed with the given tracking flag and best
  loss, on which the validation phase of epoch \<open>3\<close> has been started and two batches
  recorded, with losses \<open>1.0\<close> and \<open>1.0\<close> and accuracies \<open>87.5\<close> and \<open>88.0\<close>;
  \<open>finish_epoch\<close> has not been called yet.
\<close>

definition recorded_world :: "bool \<Rightarrow> real \<Rightarrow> (nat, unit, unit) world" where
  "recorded_world track best =
     world_of (exec_calls (TrainingProgress_init world0 0 0 track best) 0
       (StartPhase False # record_calls track False 3 [(1, 175 / 2), (1, 88)]))"

section \<open>Basic facts about the store\<close>

lemma getattr_setattr [simp]:
  "getattr (setattr w a x v) b y = (if a = b \<and> x = y then v else getattr w b y)"
  by (simp add: getattr_def setattr_def split: option.split)

lemma getattr_set_epoch [simp]: "getattr (set_epoch w a e) b y = getattr w b y"
  by (simp add: getattr_def set_epoch_def split: option.split)

lemma getattr_set_best [simp]: "getattr (set_best w a v) b y = getattr w b y"
  by (simp add: getattr_def set_best_def split: option.split)

lemma getattr_emit [simp]: "getattr (emit ev w) b y = getattr w b y"
  by (simp add: getattr_def emit_def split: option.split)

lemma track_setattr [simp]:
  "track_accuracy (objs (setattr w a x v) b) = track_accuracy (objs w b)"
  by (simp add: setattr_def)

lemma track_set_epoch [simp]:
  "track_accuracy (objs (set_epoch w a e) b) = track_accuracy (objs w b)"
  by (simp add: set_epoch_def)

lemma track_set_best [simp]:
  "track_accuracy (objs (set_best w a v) b) = track_accuracy (objs w b)"
  by (simp add: set_best_def)

lemma track_emit [simp]: "track_accuracy (objs (emit ev w) b) = track_accuracy (objs w b)"
  by (simp add: emit_def)

lemma best_setattr [simp]:
  "best_validation_loss (objs (setattr w a x v) b) = best_validation_loss (objs w b)"
  by (simp add: setattr_def)

lemma best_set_epoch [simp]:
  "best_validation_loss (objs (set_epoch w a e) b) = best_validation_loss (objs w b)"
  by (simp add: set_epoch_def)

lemma best_set_best [simp]:
  "best_validation_loss (objs (set_best w a v) b)
     = (if a = b then v else best_validation_loss (objs w b))"
  by (simp add: set_best_def)

lemma best_emit [simp]:
  "best_validation_loss (objs (emit ev w) b) = best_validation_loss (objs w b)"
  by (simp add: emit_def)

lemma epoch_setattr [simp]: "epoch (objs (setattr w a x v) b) = epoch (objs w b)"
  by (simp add: setattr_def)

lemma epoch_set_epoch [simp]:
  "epoch (objs (set_epoch w a e) b) = (if a = b then e else epoch (objs w b))"
  by (simp add: set_epoch_def)

lemma epoch_set_best [simp]: "epoch (objs (set_best w a v) b) = epoch (objs w b)"
  by (simp add: set_best_def)

lemma epoch_emit [simp]: "epoch (objs (emit ev w) b) = epoch (objs w b)"
  by (simp add: emit_def)

lemma trace_setattr [simp]: "trace (setattr w a x v) = trace w"
  by (simp add: setattr_def)

lemma trace_set_epoch [simp]: "trace (set_epoch w a e) = trace w"
  by (simp add: set_epoch_def)

lemma trace_set_best [simp]: "trace (set_best w a v) = trace w"
  by (simp add: set_best_def)

lemma trace_emit [simp]: "trace (emit ev w) = trace w @ [ev]"
  by (simp add: emit_def)

lemma class_attrs_setattr [simp]: "class_attrs (setattr w a x v) = class_attrs w"
  by (simp add: setattr_def)

lemma class_attrs_set_epoch [simp]: "class_attrs (set_epoch w a e) = class_attrs w"
  by (simp add: set_epoch_def)

lemma class_attrs_set_best [simp]: "class_attrs (set_best w a v) = class_attrs w"
  by (simp add: set_best_def)

lemma class_attrs_emit [simp]: "class_attrs (emit ev w) = class_attrs w"
  by (simp add: emit_def)

lemma world_of_simps [simp]:
  "world_of (Inl (e, w)) = w" "world_of (Inr w) = w"
  by (simp_all add: world_of_def)

lemma truediv_zero [simp]: "truediv x 0 = None"
  by (simp add: truediv_def)

lemma truediv_nonzero [simp]: "n \<noteq> 0 \<Longrightarrow> truediv x n = Some (x / real_of_int n)"
  by (simp add: truediv_def)

lemma returns_simps [simp]: "returns (Inr w)" "\<not> returns (Inl ew)"
  by (simp_all add: returns_def)

lemma raised_simps [simp]: "raised (Inr w) = None" "raised (Inl (e, w)) = Some e"
  by (simp_all add: raised_def)

lemma objs_setattr_other: "a \<noteq> b \<Longrightarrow> objs (setattr w a x v) b = objs w b"
  by (simp add: setattr_def)

lemma objs_set_epoch_other: "a \<noteq> b \<Longrightarrow> objs (set_epoch w a e) b = objs w b"
  by (simp add: set_epoch_def)

lemma objs_set_best_other: "a \<noteq> b \<Longrightarrow> objs (set_best w a v) b = objs w b"
  by (simp add: set_best_def)

lemma objs_emit: "objs (emit ev w) = objs w"
  by (simp add: emit_def)

lemmas other_simps = objs_setattr_other objs_set_epoch_other objs_set_best_other objs_emit

section \<open>The example worlds\<close>

lemmas example_defs =
  recorded_world_def record_calls_def TrainingProgress_init_def world0_def
  start_epoch_def update_progress_def Let_def setattr_def set_epoch_def getattr_def

lemma recorded_world_track [simp]: "track_accuracy (objs (recorded_world t b) 0) = t"
  by (simp add: example_defs)

lemma recorded_world_best [simp]: "best_validation_loss (objs (recorded_world t b) 0) = b"
  by (simp add: example_defs)

lemma recorded_world_trace [simp]: "trace (recorded_world t b) = []"
  by (simp add: example_defs)

lemma recorded_world_loss [simp]:
  "getattr (recorded_world t b) 0 average_validation_loss = 2"
  by (simp add: example_defs)

lemma recorded_world_acc [simp]:
  "getattr (recorded_world True b) 0 average_validation_acc = 351 / 2"
  by (simp add: example_defs)

section \<open>Truncation\<close>

text \<open>\<open>int(x)\<close> is the integer nearest to \<open>x\<close> among those between \<open>0\<close> and \<open>x\<close>.\<close>

lemma py_int_trunc:
  "\<bar>real_of_int (py_int x)\<bar> \<le> \<bar>x\<bar> \<and> \<bar>x - real_of_int (py_int x)\<bar> < 1"
  unfolding py_int_def by (auto; linarith)

section \<open>One call of a method\<close>

lemma finish_epoch_validation_save:
  "n \<noteq> 0 \<Longrightarrow>
   getattr w self average_validation_loss / real_of_int n
     < best_validation_loss (objs w self) \<Longrightarrow>
   trace (world_of (finish_epoch w self False e model n))
     = trace w @ [TorchSave model
         (checkpoint_name e (getattr w self average_validation_acc / real_of_int n))]"
  by (simp add: finish_epoch_def Let_def)

lemma finish_epoch_means:
  "n \<noteq> 0 \<Longrightarrow>
   returns (finish_epoch w self train e model n)
   \<and> getattr (world_of (finish_epoch w self train e model n)) self (loss_attr train)
       = getattr w self (loss_attr train) / real_of_int n
   \<and> getattr (world_of (finish_epoch w self train e model n)) self (acc_attr train)
       = getattr w self (acc_attr train) / real_of_int n"
  by (simp add: finish_epoch_def Let_def loss_attr_def acc_attr_def)

lemma start_epoch_zero:
  "track_accuracy (objs (start_epoch w self train) self) = track_accuracy (objs w self)
   \<and> getattr (start_epoch w self train) self (loss_attr train) = 0
   \<and> getattr (start_epoch w self train) self (acc_attr train) = 0"
  by (simp add: start_epoch_def loss_attr_def acc_attr_def)

lemma update_progress_sums:
  "track_accuracy (objs w self) = tr \<Longrightarrow>
   \<exists>w1. update_progress w self train e l (if tr then Some a else None) = Inr w1
     \<and> track_accuracy (objs w1 self) = tr
     \<and> getattr w1 self (loss_attr train) = getattr w self (loss_attr train) + l
     \<and> getattr w1 self (acc_attr train)
         = getattr w self (acc_attr train) + (if tr then a else 0)"
  by (simp add: update_progress_def Let_def loss_attr_def acc_attr_def)

text \<open>With tracking disabled no method touches an accuracy accumulator that is zero.\<close>

lemma update_progress_untracked:
  "\<not> track_accuracy (objs w self) \<Longrightarrow>
   returns (update_progress w self train e loss acc)
   \<and> \<not> track_accuracy (objs (world_of (update_progress w self train e loss acc)) self)
   \<and> getattr (world_of (update_progress w self train e loss acc)) self average_training_acc
       = getattr w self average_training_acc
   \<and> getattr (world_of (update_progress w self train e loss acc)) self average_validation_acc
       = getattr w self average_validation_acc"
  by (simp add: update_progress_def Let_def)

lemma start_epoch_accs:
  "track_accuracy (objs (start_epoch w self train) self) = track_accuracy (objs w self)
   \<and> getattr (start_epoch w self train) self average_training_acc
       = (if train then 0 else getattr w self average_training_acc)
   \<and> getattr (start_epoch w self train) self average_validation_acc
       = (if train then getattr w self average_validation_acc else 0)"
  by (simp add: start_epoch_def)

lemma finish_epoch_zero_accs:
  "getattr w self average_training_acc = 0 \<Longrightarrow>
   getattr w self average_validation_acc = 0 \<Longrightarrow>
   track_accuracy (objs (world_of (finish_epoch w self train e model n)) self)
      = track_accuracy (objs w self)
   \<and> getattr (world_of (finish_epoch w self train e model n)) self average_training_acc = 0
   \<and> getattr (world_of (finish_epoch w self train e model n)) self average_validation_acc = 0
   \<and> (raised (finish_epoch w self train e model n) = None
        \<or> raised (finish_epoch w self train e model n) = Some ZeroDivisionError)"
  by (cases "n = 0") (simp_all add: finish_epoch_def Let_def)

lemma init_untracked:
  "class_attrs w = TrainingProgress_class \<Longrightarrow>
   \<not> track_accuracy (objs (TrainingProgress_init w self e0 False best) self)
   \<and> getattr (TrainingProgress_init w self e0 False best) self average_training_acc = 0
   \<and> getattr (TrainingProgress_init w self e0 False best) self average_validation_acc = 0"
  by (simp add: TrainingProgress_init_def getattr_def TrainingProgress_class_def)

text \<open>A method called on one object leaves every other object and the class alone.\<close>

lemma update_progress_other:
  "a \<noteq> b \<Longrightarrow> objs (world_of (update_progress w a train e loss acc)) b = objs w b
     \<and> class_attrs (world_of (update_progress w a train e loss acc)) = class_attrs w"
  by (simp add: update_progress_def Let_def other_simps split: option.split)

lemma start_epoch_other:
  "a \<noteq> b \<Longrightarrow> objs (start_epoch w a train) b = objs w b
     \<and> class_attrs (start_epoch w a train) = class_attrs w"
  by (simp add: start_epoch_def other_simps)

lemma finish_epoch_other:
  "a \<noteq> b \<Longrightarrow> objs (world_of (finish_epoch w a train e model n)) b = objs w b
     \<and> class_attrs (world_of (finish_epoch w a train e model n)) = class_attrs w"
  by (cases "n = 0") (simp_all add: finish_epoch_def Let_def other_simps)

lemma exec_call_other:
  "a \<noteq> b \<Longrightarrow> objs (world_of (exec_call w a c)) b = objs w b
     \<and> class_attrs (world_of (exec_call w a c)) = class_attrs w"
  by (cases c) (simp_all add: update_progress_other start_epoch_other finish_epoch_other)

section \<open>Sequences of calls\<close>

lemma exec_calls_append:
  "exec_calls w self (xs @ ys)
     = (case exec_calls w self xs of Inl ew \<Rightarrow> Inl ew | Inr w1 \<Rightarrow> exec_calls w1 self ys)"
  by (induction xs arbitrary: w) (simp_all split: sum.split)

lemma exec_calls_other:
  "a \<noteq> b \<Longrightarrow> objs (world_of (exec_calls w a cs)) b = objs w b
     \<and> class_attrs (world_of (exec_calls w a cs)) = class_attrs w"
proof (induction cs arbitrary: w)
  case Nil
  then show ?case by simp
next
  case (Cons c cs)
  show ?case
  proof (cases "exec_call w a c")
    case (Inl ew)
    then have "exec_calls w a (c # cs) = exec_call w a c" by simp
    then show ?thesis using exec_call_other[OF Cons.prems] by simp
  next
    case (Inr w1)
    then have "exec_calls w a (c # cs) = exec_calls w1 a cs" by simp
    moreover have "objs w1 b = objs w b \<and> class_attrs w1 = class_attrs w"
      using exec_call_other[OF Cons.prems, of w c] Inr by simp
    ultimately show ?thesis using Cons.IH[OF Cons.prems, of w1] by simp
  qed
qed

lemma exec_call_untracked:
  assumes "\<not> track_accuracy (objs w self)"
    and "getattr w self average_training_acc = 0"
    and "getattr w self average_validation_acc = 0"
  shows "\<not> track_accuracy (objs (world_of (exec_call w self c)) self)
   \<and> getattr (world_of (exec_call w self c)) self average_training_acc = 0
   \<and> getattr (world_of (exec_call w self c)) self average_validation_acc = 0
   \<and> (raised (exec_call w self c) = None
        \<or> raised (exec_call w self c) = Some ZeroDivisionError)"
proof (cases c)
  case (StartPhase train)
  then show ?thesis using assms start_epoch_accs[of w self train] by simp
next
  case (RecordBatch train e loss acc)
  have "raised (update_progress w self train e loss acc) = None"
    using update_progress_untracked[OF assms(1), of train e loss acc]
    by (cases "update_progress w self train e loss acc") simp_all
  then show ?thesis
    using RecordBatch assms update_progress_untracked[OF assms(1), of train e loss acc]
    by simp
next
  case (FinishPhase train e model n)
  then show ?thesis
    using assms finish_epoch_zero_accs[OF assms(2,3), of train e model n] by simp
qed

lemma exec_calls_untracked:
  assumes "\<not> track_accuracy (objs w self)"
    and "getattr w self average_training_acc = 0"
    and "getattr w self average_validation_acc = 0"
  shows "\<not> track_accuracy (objs (world_of (exec_calls w self cs)) self)
   \<and> getattr (world_of (exec_calls w self cs)) self average_training_acc = 0
   \<and> getattr (world_of (exec_calls w self cs)) self average_validation_acc = 0
   \<and> (raised (exec_calls w self cs) = None
        \<or> raised (exec_calls w self cs) = Some ZeroDivisionError)"
  using assms
proof (induction cs arbitrary: w)
  case Nil
  then show ?case by simp
next
  case (Cons c cs)
  note step = exec_call_untracked[OF Cons.prems, of c]
  show ?case
  proof (cases "exec_call w self c")
    case (Inl ew)
    then have "exec_calls w self (c # cs) = exec_call w self c" by simp
    then show ?thesis using step by simp
  next
    case (Inr w1)
    then have eq: "exec_calls w self (c # cs) = exec_calls w1 self cs" by simp
    have "\<not> track_accuracy (objs w1 self)"
      and "getattr w1 self average_training_acc = 0"
      and "getattr w1 self average_validation_acc = 0"
      using step Inr by simp_all
    then show ?thesis unfolding eq by (rule Cons.IH)
  qed
qed

text \<open>The batches of a phase add up in the phase's accumulators.\<close>

lemma exec_record_calls:
  "track_accuracy (objs w self) = tr \<Longrightarrow>
   \<exists>w1. exec_calls w self (record_calls tr train e bs) = Inr w1
     \<and> track_accuracy (objs w1 self) = tr
     \<and> getattr w1 self (loss_attr train)
         = getattr w self (loss_attr train) + sum_list (map fst bs)
     \<and> getattr w1 self (acc_attr train)
         = getattr w self (acc_attr train) + (if tr then sum_list (map snd bs) else 0)"
proof (induction bs arbitrary: w)
  case Nil
  then show ?case by (simp add: record_calls_def)
next
  case (Cons b bs)
  obtain l a where b: "b = (l, a)" by (cases b)
  from update_progress_sums[OF Cons.prems, of train e l a]
  obtain w1 where w1:
    "update_progress w self train e l (if tr then Some a else None) = Inr w1"
    "track_accuracy (objs w1 self) = tr"
    "getattr w1 self (loss_attr train) = getattr w self (loss_attr train) + l"
    "getattr w1 self (acc_attr train)
       = getattr w self (acc_attr train) + (if tr then a else 0)"
    by blast
  from Cons.IH[OF w1(2)] obtain w2 where w2:
    "exec_calls w1 self (record_calls tr train e bs) = Inr w2"
    "track_accuracy (objs w2 self) = tr"
    "getattr w2 self (loss_attr train)
       = getattr w1 self (loss_attr train) + sum_list (map fst bs)"
    "getattr w2 self (acc_attr train)
       = getattr w1 self (acc_attr train) + (if tr then sum_list (map snd bs) else 0)"
    by blast
  have "exec_calls w self (record_calls tr train e (b # bs)) = Inr w2"
    using w1(1) w2(1) by (simp add: record_calls_def b)
  then show ?case using w1 w2 by (simp add: b)
qed

section \<open>The driver's loop\<close>

text \<open>
  While the tracker does not track accuracy, every call that the loop makes to the
  processor is \<open>processor(batch)\<close>, for a prefix of the batches (all of them unless an
  exception ends the loop), whichever phase the loop runs for.
\<close>

lemma update_progress_trace:
  "trace (world_of (update_progress w self train e loss acc)) = trace w"
  by (simp add: update_progress_def Let_def split: option.split)

lemma call_processor_effect:
  "trace (snd (call_processor processor batch flag w)) = trace w @ [ProcessorCall batch flag]
   \<and> objs (snd (call_processor processor batch flag w)) = objs w"
  by (simp add: call_processor_def emit_def split: prod.split)

lemma process_batches_untracked_calls:
  "\<not> track_accuracy (objs w self) \<Longrightarrow>
   \<exists>k. trace (world_of (process_batches processor self e train bs w))
         = trace w @ map (\<lambda>b. ProcessorCall b None) (take k bs)"
proof (induction bs arbitrary: w)
  case Nil
  then show ?case by simp
next
  case (Cons b bs)
  obtain r w1 where c: "call_processor processor b None w = (r, w1)"
    by (cases "call_processor processor b None w")
  have w1: "trace w1 = trace w @ [ProcessorCall b None]" "objs w1 = objs w"
    using call_processor_effect[of processor b None w] c by simp_all
  have one: "trace w1 = trace w @ map (\<lambda>b. ProcessorCall b None) (take 1 (b # bs))"
    using w1 by simp
  show ?case
  proof (cases r)
    case (Inl err)
    then have "world_of (process_batches processor self e train (b # bs) w) = w1"
      using Cons.prems c by simp
    then show ?thesis using one by metis
  next
    case (Inr v)
    show ?thesis
    proof (cases v)
      case (TensorPair l a)
      then have "world_of (process_batches processor self e train (b # bs) w) = w1"
        using Cons.prems c Inr by simp
      then show ?thesis using one by metis
    next
      case (Tensor l)
      have nt: "\<not> track_accuracy (objs w1 self)" using Cons.prems w1 by simp
      from update_progress_untracked[OF nt, of train e l None]
      obtain w2 where u: "update_progress w1 self train e l None = Inr w2"
        and nt2: "\<not> track_accuracy (objs w2 self)"
        by (cases "update_progress w1 self train e l None") simp_all
      have t2: "trace w2 = trace w1"
        using update_progress_trace[of w1 self train e l None] u by simp
      have eq: "process_batches processor self e train (b # bs) w
                  = process_batches processor self e train bs w2"
        using Cons.prems c Inr Tensor u by simp
      from Cons.IH[OF nt2] obtain k where
        "trace (world_of (process_batches processor self e train bs w2))
           = trace w2 @ map (\<lambda>b. ProcessorCall b None) (take k bs)" by blast
      then have "trace (world_of (process_batches processor self e train (b # bs) w))
           = trace w @ map (\<lambda>b. ProcessorCall b None) (take (Suc k) (b # bs))"
        using eq t2 w1 by simp
      then show ?thesis by blast
    qed
  qed
qed

section \<open>The claims\<close>

text \<open>
  C1. \<open>finish_epoch\<close> for the validation phase, with \<open>num_batches\<close> not zero,
  returns, and the validation loss accumulator then holds the new mean. Exactly one
  \<open>torch.save\<close> is appended to the trace if and only if the new mean is strictly
  less than the stored best. If it is, the stored best becomes the new mean; if it is
  not (in particular if the two are equal) the trace and the stored best are unchanged.
\<close>

theorem finish_epoch_checkpoint_iff_strictly_lower:
  "n \<noteq> 0 \<Longrightarrow>
   returns (finish_epoch w self False e model n)
   \<and> getattr (world_of (finish_epoch w self False e model n)) self average_validation_loss
       = getattr w self average_validation_loss / real_of_int n
   \<and> ((\<exists>name. trace (world_of (finish_epoch w self False e model n))
                  = trace w @ [TorchSave model name])
        = (getattr w self average_validation_loss / real_of_int n
             < best_validation_loss (objs w self)))
   \<and> (if getattr w self average_validation_loss / real_of_int n
           < best_validation_loss (objs w self)
        then best_validation_loss (objs (world_of (finish_epoch w self False e model n)) self)
               = getattr w self average_validation_loss / real_of_int n
        else trace (world_of (finish_epoch w self False e model n)) = trace w
             \<and> best_validation_loss (objs (world_of (finish_epoch w self False e model n)) self)
                 = best_validation_loss (objs w self))"
  by (simp add: finish_epoch_def Let_def)

text \<open>
  The two validation scenarios of the specification: with a stored best of \<open>1e6\<close>
  the mean \<open>1.0\<close> is saved and becomes the best; with a stored best of \<open>1.0\<close> the
  mean \<open>1.0\<close> is not saved.
\<close>

theorem finish_epoch_checkpoint_iff_strictly_lower_witness:
  "(2::int) \<noteq> 0
   \<and> returns (finish_epoch (recorded_world True 1000000) 0 False 3 () 2)
   \<and> getattr (world_of (finish_epoch (recorded_world True 1000000) 0 False 3 () 2)) 0
        average_validation_loss = 1
   \<and> (\<exists>name. trace (world_of (finish_epoch (recorded_world True 1000000) 0 False 3 () 2))
                = [TorchSave () name])
   \<and> best_validation_loss
        (objs (world_of (finish_epoch (recorded_world True 1000000) 0 False 3 () 2)) 0) = 1
   \<and> returns (finish_epoch (recorded_world True 1) 0 False 3 () 2)
   \<and> getattr (world_of (finish_epoch (recorded_world True 1) 0 False 3 () 2)) 0
        average_validation_loss = 1
   \<and> trace (world_of (finish_epoch (recorded_world True 1) 0 False 3 () 2)) = []
   \<and> best_validation_loss
        (objs (world_of (finish_epoch (recorded_world True 1) 0 False 3 () 2)) 0) = 1"
  using finish_epoch_checkpoint_iff_strictly_lower
          [of 2 "recorded_world True 1000000" 0 3 "()"]
        finish_epoch_checkpoint_iff_strictly_lower
          [of 2 "recorded_world True 1" 0 3 "()"]
  by simp

text \<open>
  C2. After \<open>start_epoch\<close> of a phase, one \<open>update_progress\<close> of that phase for each
  of the batches \<open>bs\<close> (at least one) and \<open>finish_epoch\<close> with
  \<open>num_batches = len(bs)\<close>, all calls have returned, the loss accumulator of the
  phase is the sum of the losses divided by their number, and with accuracy tracking
  enabled the accuracy accumulator is the sum of the accuracies divided by their
  number (with tracking disabled it is zero).
\<close>

theorem phase_mean_is_sum_over_count:
  assumes "bs \<noteq> []"
  shows "returns (exec_calls w self
            (StartPhase train # record_calls (track_accuracy (objs w self)) train e bs
               @ [FinishPhase train e' model (int (length bs))]))
   \<and> getattr (world_of (exec_calls w self
            (StartPhase train # record_calls (track_accuracy (objs w self)) train e bs
               @ [FinishPhase train e' model (int (length bs))]))) self (loss_attr train)
       = sum_list (map fst bs) / real (length bs)
   \<and> getattr (world_of (exec_calls w self
            (StartPhase train # record_calls (track_accuracy (objs w self)) train e bs
               @ [FinishPhase train e' model (int (length bs))]))) self (acc_attr train)
       = (if track_accuracy (objs w self)
          then sum_list (map snd bs) / real (length bs) else 0)"
proof -
  let ?tr = "track_accuracy (objs w self)"
  let ?w0 = "start_epoch w self train"
  note z = start_epoch_zero[of w self train]
  from exec_record_calls[of ?w0 self ?tr train e bs] z
  obtain w1 where w1: "exec_calls ?w0 self (record_calls ?tr train e bs) = Inr w1"
    "getattr w1 self (loss_attr train) = sum_list (map fst bs)"
    "getattr w1 self (acc_attr train) = (if ?tr then sum_list (map snd bs) else 0)"
    by auto
  have n: "int (length bs) \<noteq> 0" using assms by simp
  have eq: "exec_calls w self
            (StartPhase train # record_calls ?tr train e bs
               @ [FinishPhase train e' model (int (length bs))])
        = finish_epoch w1 self train e' model (int (length bs))"
    using w1(1) by (simp add: exec_calls_append split: sum.split)
  show ?thesis
    unfolding eq using finish_epoch_means[OF n, of w1 self train e' model] w1(2,3) by simp
qed

text \<open>
  The training scenario of the specification: losses \<open>2.0\<close> and \<open>4.0\<close> give the
  mean \<open>3.0\<close>; the accuracies \<open>50\<close> and \<open>100\<close> give \<open>75\<close>.
\<close>

theorem phase_mean_is_sum_over_count_witness:
  "[(2, 50), (4, 100)] \<noteq> ([] :: (real \<times> real) list)
   \<and> returns (exec_calls (TrainingProgress_init world0 0 0 True 1000000) 0
        (StartPhase True # record_calls True True 0 [(2, 50), (4, 100)]
           @ [FinishPhase True 0 () 2]))
   \<and> getattr (world_of (exec_calls (TrainingProgress_init world0 0 0 True 1000000) 0
        (StartPhase True # record_calls True True 0 [(2, 50), (4, 100)]
           @ [FinishPhase True 0 () 2]))) 0 average_training_loss = 3
   \<and> getattr (world_of (exec_calls (TrainingProgress_init world0 0 0 True 1000000) 0
        (StartPhase True # record_calls True True 0 [(2, 50), (4, 100)]
           @ [FinishPhase True 0 () 2]))) 0 average_training_acc = 75"
  using phase_mean_is_sum_over_count
          [of "[(2, 50), (4, 100)]" "TrainingProgress_init world0 0 0 True 1000000"
              0 True 0 0 "()"]
  by (simp add: TrainingProgress_init_def loss_attr_def acc_attr_def)

text \<open>
  C3. When \<open>finish_epoch\<close> for the validation phase writes a checkpoint, the file is
  named \<open>epoch-<epoch>-<k>.pt\<close>, where \<open><epoch>\<close> is the epoch passed to the call
  and \<open>k\<close> is the mean validation accuracy with its fractional part dropped: the
  integer between zero and the mean that is less than one away from it. The source
  applies \<open>int\<close>, which truncates toward zero; it does not round to the nearest
  integer.
\<close>

theorem checkpoint_name_truncates_accuracy:
  assumes "n \<noteq> 0"
    and "getattr w self average_validation_loss / real_of_int n
           < best_validation_loss (objs w self)"
  shows "\<exists>k. trace (world_of (finish_epoch w self False e model n))
         = trace w @ [TorchSave model (''epoch-'' @ fmt_d e @ ''-'' @ fmt_d k @ ''.pt'')]
     \<and> \<bar>real_of_int k\<bar> \<le> \<bar>getattr w self average_validation_acc / real_of_int n\<bar>
     \<and> \<bar>getattr w self average_validation_acc / real_of_int n - real_of_int k\<bar> < 1"
proof (intro exI conjI)
  show "trace (world_of (finish_epoch w self False e model n))
         = trace w @ [TorchSave model (''epoch-'' @ fmt_d e @ ''-''
              @ fmt_d (py_int (getattr w self average_validation_acc / real_of_int n))
              @ ''.pt'')]"
    using finish_epoch_validation_save[OF assms] by (simp add: checkpoint_name_def)
  show "\<bar>real_of_int (py_int (getattr w self average_validation_acc / real_of_int n))\<bar>
          \<le> \<bar>getattr w self average_validation_acc / real_of_int n\<bar>"
    using py_int_trunc by blast
  show "\<bar>getattr w self average_validation_acc / real_of_int n
          - real_of_int (py_int (getattr w self average_validation_acc / real_of_int n))\<bar>
          < 1"
    using py_int_trunc by blast
qed

text \<open>
  At the mean accuracy \<open>87.75\<close> in epoch \<open>3\<close> the only such \<open>k\<close> is \<open>87\<close>.
\<close>

theorem checkpoint_name_truncates_accuracy_witness:
  "(2::int) \<noteq> 0
   \<and> getattr (recorded_world True 1000000) 0 average_validation_loss / real_of_int 2
       < best_validation_loss (objs (recorded_world True 1000000) 0)
   \<and> (\<exists>k. trace (world_of (finish_epoch (recorded_world True 1000000) 0 False 3 () 2))
         = trace (recorded_world True 1000000)
             @ [TorchSave () (''epoch-'' @ fmt_d 3 @ ''-'' @ fmt_d k @ ''.pt'')]
     \<and> \<bar>real_of_int k\<bar>
         \<le> \<bar>getattr (recorded_world True 1000000) 0 average_validation_acc / real_of_int 2\<bar>
     \<and> \<bar>getattr (recorded_world True 1000000) 0 average_validation_acc / real_of_int 2
          - real_of_int k\<bar> < 1)"
proof -
  have h1: "(2::int) \<noteq> 0" by simp
  have h2: "getattr (recorded_world True 1000000) 0 average_validation_loss / real_of_int 2
       < best_validation_loss (objs (recorded_world True 1000000) 0)" by simp
  show ?thesis
    using h1 h2 checkpoint_name_truncates_accuracy[OF h1 h2, of 3 "()"] by blast
qed

text \<open>
  The claim as the specification states it fails: two validation batches with
  accuracies \<open>87.5\<close> and \<open>88.0\<close> have the mean \<open>87.75\<close>; the checkpoint of epoch
  \<open>3\<close> is written as \<open>epoch-3-87.pt\<close>, while rounding to the nearest integer gives
  \<open>epoch-3-88.pt\<close>.
\<close>

theorem checkpoint_name_rounded_counterexample:
  "trace (world_of (finish_epoch (recorded_world True 1000000) 0 False 3 () 2))
     = [TorchSave () ''epoch-3-87.pt'']
   \<and> spec_checkpoint_name 3 (351 / 2 / real_of_int 2) = ''epoch-3-88.pt''
   \<and> trace (world_of (finish_epoch (recorded_world True 1000000) 0 False 3 () 2))
       \<noteq> [TorchSave ()
            (spec_checkpoint_name 3
               (getattr (recorded_world True 1000000) 0 average_validation_acc
                  / real_of_int 2))]"
  by (simp add: finish_epoch_def Let_def checkpoint_name_def spec_checkpoint_name_def
       fmt_d_def digits.simps py_int_def round_def)

text \<open>
  C4. With accuracy tracking disabled the driver calls \<open>processor(batch)\<close> in both
  loops: the flag is not passed, neither \<open>train=True\<close> for a training batch nor
  \<open>train=False\<close> for a validation batch. Here the tracker at address \<open>0\<close> does not
  track accuracy, the training iterator holds batch \<open>1\<close> and the validation iterator
  batch \<open>2\<close>; \<open>process_batches_untracked_calls\<close> above shows the same for every
  input without tracking.
\<close>

theorem train_epoch_untracked_omits_flag:
  "trace (world_of (train_epoch 0 () [1] (Some [2]) unit_loss_processor (Some 0)
      (TrainingProgress_init world0 0 0 False 1000000)))
   = [ModelTrain, ProcessorCall 1 None, PrintTraining 0 1 0,
      ModelEval, ProcessorCall 2 None, TorchSave () ''epoch-0-0.pt'', PrintValidation 1 0]"
  by (simp add: train_epoch_def Let_def call_processor_def unit_loss_processor_def
      TrainingProgress_init_def world0_def start_epoch_def update_progress_def
      finish_epoch_def setattr_def set_epoch_def set_best_def getattr_def emit_def
      truediv_def world_of_def checkpoint_name_def fmt_d_def digits.simps py_int_def
      TrainingProgress_class_def)

text \<open>
  The sibling branch, taken when accuracy is tracked, passes the flag in both loops.
\<close>

lemma train_epoch_tracked_passes_flag:
  "trace (world_of (train_epoch 0 () [1] (Some [2]) pair_processor (Some 0)
      (TrainingProgress_init world0 0 0 True 1000000)))
   = [ModelTrain, ProcessorCall 1 (Some True), PrintTraining 0 1 90,
      ModelEval, ProcessorCall 2 (Some False), TorchSave () ''epoch-0-90.pt'',
      PrintValidation 1 90]"
  by (simp add: train_epoch_def Let_def call_processor_def pair_processor_def
      TrainingProgress_init_def world0_def start_epoch_def update_progress_def
      finish_epoch_def setattr_def set_epoch_def set_best_def getattr_def emit_def
      truediv_def world_of_def checkpoint_name_def fmt_d_def digits.simps py_int_def
      TrainingProgress_class_def)

text \<open>
  C5. \<open>train_epoch\<close> called with \<open>progress=None\<close> raises the \<open>AssertionError\<close>
  with its diagnostic at once: the world is returned as it was, so the model's mode
  has not been switched, no batch has been given to the processor and nothing was
  printed or saved.
\<close>

theorem train_epoch_without_progress:
  "train_epoch e model train_iterator valid_iterator processor None w
     = Inl (AssertionError ''Please provide your training progress to train_epoch.'', w)"
  by (simp add: train_epoch_def)

text \<open>
  C6. \<open>start_epoch\<close> followed at once by \<open>finish_epoch\<close> with \<open>num_batches = 0\<close>
  raises \<open>ZeroDivisionError\<close> in the training phase and in the validation phase
  alike; the first division raises, so only the epoch has been assigned by then.
\<close>

theorem finish_epoch_zero_batches_raises:
  "finish_epoch (start_epoch w self train) self train e model 0
     = Inl (ZeroDivisionError, set_epoch (start_epoch w self train) self e)"
  by (simp add: finish_epoch_def Let_def)

text \<open>
  C7. A tracker constructed with \<open>track_accuracy=False\<close>, in a world whose class
  attributes are those of the class body, keeps both accuracy accumulators at zero
  through every sequence of calls, whatever the accuracy arguments are (absent or
  not) and whether the sequence ends normally or by an exception. The only exception
  such a sequence can raise is the \<open>ZeroDivisionError\<close> of \<open>finish_epoch\<close>, and an
  \<open>update_progress\<close> without accuracy argument returns in the state reached.
\<close>

theorem untracked_accuracy_stays_zero:
  assumes "class_attrs w = TrainingProgress_class"
  shows "getattr (world_of (exec_calls (TrainingProgress_init w self e0 False best) self cs))
       self average_training_acc = 0
   \<and> getattr (world_of (exec_calls (TrainingProgress_init w self e0 False best) self cs))
       self average_validation_acc = 0
   \<and> (raised (exec_calls (TrainingProgress_init w self e0 False best) self cs) = None
        \<or> raised (exec_calls (TrainingProgress_init w self e0 False best) self cs)
            = Some ZeroDivisionError)
   \<and> returns (update_progress
        (world_of (exec_calls (TrainingProgress_init w self e0 False best) self cs))
        self train e loss None)"
proof -
  note i = init_untracked[OF assms, of self e0 best]
  have "\<not> track_accuracy (objs (world_of
            (exec_calls (TrainingProgress_init w self e0 False best) self cs)) self)
   \<and> getattr (world_of (exec_calls (TrainingProgress_init w self e0 False best) self cs))
       self average_training_acc = 0
   \<and> getattr (world_of (exec_calls (TrainingProgress_init w self e0 False best) self cs))
       self average_validation_acc = 0
   \<and> (raised (exec_calls (TrainingProgress_init w self e0 False best) self cs) = None
        \<or> raised (exec_calls (TrainingProgress_init w self e0 False best) self cs)
            = Some ZeroDivisionError)"
    using i by (intro exec_calls_untracked) simp_all
  then show ?thesis using update_progress_untracked by blast
qed

text \<open>
  A training phase of one batch without accuracy, then a validation phase finished
  with no batch at all: the sequence ends with \<open>ZeroDivisionError\<close>.
\<close>

theorem untracked_accuracy_stays_zero_witness:
  "class_attrs world0 = TrainingProgress_class
   \<and> getattr (world_of (exec_calls (TrainingProgress_init world0 0 0 False 1000000) 0
        [StartPhase True, RecordBatch True 1 2 None, FinishPhase True 1 () 1,
         StartPhase False, FinishPhase False 1 () 0])) 0 average_training_acc = 0
   \<and> getattr (world_of (exec_calls (TrainingProgress_init world0 0 0 False 1000000) 0
        [StartPhase True, RecordBatch True 1 2 None, FinishPhase True 1 () 1,
         StartPhase False, FinishPhase False 1 () 0])) 0 average_validation_acc = 0
   \<and> raised (exec_calls (TrainingProgress_init world0 0 0 False 1000000) 0
        [StartPhase True, RecordBatch True 1 2 None, FinishPhase True 1 () 1,
         StartPhase False, FinishPhase False 1 () 0]) = Some ZeroDivisionError
   \<and> returns (update_progress
        (world_of (exec_calls (TrainingProgress_init world0 0 0 False 1000000) 0
          [StartPhase True, RecordBatch True 1 2 None, FinishPhase True 1 () 1,
           StartPhase False, FinishPhase False 1 () 0])) 0 True 2 3 None)"
proof -
  have h: "class_attrs world0 = TrainingProgress_class" by (simp add: world0_def)
  have r: "raised (exec_calls (TrainingProgress_init world0 0 0 False 1000000) 0
        [StartPhase True, RecordBatch True 1 2 None, FinishPhase True 1 () 1,
         StartPhase False, FinishPhase False 1 () 0]) = Some ZeroDivisionError"
    by (simp add: TrainingProgress_init_def world0_def start_epoch_def update_progress_def
          finish_epoch_def Let_def)
  show ?thesis
    using h r untracked_accuracy_stays_zero[OF h, of 0 0 1000000
        "[StartPhase True, RecordBatch True 1 2 None, FinishPhase True 1 () 1,
          StartPhase False, FinishPhase False 1 () 0]" True 2 3]
    by blast
qed

text \<open>
  C8. With accuracy tracking enabled, \<open>update_progress\<close> without accuracy argument
  raises \<open>TypeError\<close>. Neither accuracy accumulator has changed at the raise; the
  loss accumulator of the phase has received the loss that was passed, and the other
  loss accumulator is unchanged.
\<close>

theorem update_progress_missing_accuracy_raises:
  "track_accuracy (objs w self) \<Longrightarrow>
   raised (update_progress w self train e loss None) = Some TypeError
   \<and> getattr (world_of (update_progress w self train e loss None)) self average_training_acc
       = getattr w self average_training_acc
   \<and> getattr (world_of (update_progress w self train e loss None)) self average_validation_acc
       = getattr w self average_validation_acc
   \<and> getattr (world_of (update_progress w self train e loss None)) self (loss_attr train)
       = getattr w self (loss_attr train) + loss
   \<and> getattr (world_of (update_progress w self train e loss None)) self (loss_attr (\<not> train))
       = getattr w self (loss_attr (\<not> train))"
  by (simp add: update_progress_def Let_def loss_attr_def)

theorem update_progress_missing_accuracy_raises_witness:
  "track_accuracy (objs (recorded_world True 1000000) 0)
   \<and> raised (update_progress (recorded_world True 1000000) 0 False 3 (1 / 2) None)
       = Some TypeError
   \<and> getattr (world_of (update_progress (recorded_world True 1000000) 0 False 3 (1 / 2) None))
        0 average_validation_acc = 351 / 2
   \<and> getattr (world_of (update_progress (recorded_world True 1000000) 0 False 3 (1 / 2) None))
        0 average_validation_loss = 5 / 2"
  using update_progress_missing_accuracy_raises
          [of "recorded_world True 1000000" 0 False 3 "1 / 2"]
  by (simp add: loss_attr_def)

text \<open>
  C9. \<open>finish_epoch\<close> for the training phase, whether it returns or raises, leaves
  the stored best validation loss, the trace (hence no \<open>torch.save\<close>) and both
  validation accumulators as they were.
\<close>

theorem finish_epoch_training_frame:
  "best_validation_loss (objs (world_of (finish_epoch w self True e model n)) self)
     = best_validation_loss (objs w self)
   \<and> trace (world_of (finish_epoch w self True e model n)) = trace w
   \<and> getattr (world_of (finish_epoch w self True e model n)) self average_validation_loss
       = getattr w self average_validation_loss
   \<and> getattr (world_of (finish_epoch w self True e model n)) self average_validation_acc
       = getattr w self average_validation_acc"
  by (cases "n = 0") (simp_all add: finish_epoch_def Let_def)

text \<open>
  C10. For two distinct objects \<open>a\<close> and \<open>b\<close>, every sequence of calls on \<open>a\<close>,
  whether it ends normally or by an exception, leaves each attribute read on \<open>b\<close> as
  it was: the object \<open>b\<close> is unchanged, and so are the class attributes that \<open>b\<close>
  falls back to.
\<close>

theorem calls_do_not_leak_across_instances:
  "a \<noteq> b \<Longrightarrow>
   getattr (world_of (exec_calls w a cs)) b x = getattr w b x
   \<and> objs (world_of (exec_calls w a cs)) b = objs w b
   \<and> class_attrs (world_of (exec_calls w a cs)) = class_attrs w"
  using exec_calls_other[of a b w cs] by (simp add: getattr_def split: option.split)

text \<open>
  Two fresh trackers at addresses \<open>0\<close> and \<open>1\<close>; a training phase on the first
  leaves the second reading the class defaults.
\<close>

theorem calls_do_not_leak_across_instances_witness:
  "(0::nat) \<noteq> 1
   \<and> getattr (world_of (exec_calls
        (TrainingProgress_init (TrainingProgress_init world0 0 0 True 1000000) 1 0 True 1000000)
        0 [StartPhase True, RecordBatch True 1 2 (Some 50), RecordBatch True 1 4 (Some 100)]))
        1 average_training_loss = 0
   \<and> getattr (world_of (exec_calls
        (TrainingProgress_init (TrainingProgress_init world0 0 0 True 1000000) 1 0 True 1000000)
        0 [StartPhase True, RecordBatch True 1 2 (Some 50), RecordBatch True 1 4 (Some 100)]))
        0 average_training_loss = 6"
proof -
  have h: "(0::nat) \<noteq> 1" by simp
  have own: "getattr (world_of (exec_calls
        (TrainingProgress_init (TrainingProgress_init world0 0 0 True 1000000) 1 0 True 1000000)
        0 [StartPhase True, RecordBatch True 1 2 (Some 50), RecordBatch True 1 4 (Some 100)]))
        0 average_training_loss = 6"
    by (simp add: TrainingProgress_init_def world0_def start_epoch_def update_progress_def
          Let_def)
  have init: "getattr
        (TrainingProgress_init (TrainingProgress_init world0 0 0 True 1000000) 1 0 True 1000000)
        1 average_training_loss = 0"
    by (simp add: TrainingProgress_init_def world0_def getattr_def TrainingProgress_class_def)
  show ?thesis
    using h own init calls_do_not_leak_across_instances[OF h,
        of "TrainingProgress_init (TrainingProgress_init world0 0 0 True 1000000) 1 0 True 1000000"
           "[StartPhase True, RecordBatch True 1 2 (Some 50), RecordBatch True 1 4 (Some 100)]"
           average_training_loss]
    by simp
qed

end
